theory Spec2Isabelle
  imports Main "HOL-Library.Sublist" "HOL-Library.Multiset"
begin

section \<open>Python values and strings\<close>

text \<open>
  A Python \<open>str\<close> is a sequence of Unicode code points and \<open>len\<close> counts code points,
  so a string of user data (a title, a status, an identifier) is a list of code points.
  The fixed ASCII texts of the program (error messages, error types, DynamoDB error
  codes) are HOL strings.
\<close>

type_synonym pystr = "nat list"

definition str :: "string \<Rightarrow> pystr" where
  "str s = map of_char s"

text \<open>
  \<open>str.isspace\<close> for one code point: the characters Python's \<open>str.strip()\<close> removes
  when called with no argument.
\<close>

definition isspace :: "nat \<Rightarrow> bool" where
  "isspace c \<longleftrightarrow>
     (9 \<le> c \<and> c \<le> 13) \<or> (28 \<le> c \<and> c \<le> 32) \<or> c = 133 \<or> c = 160 \<or> c = 5760 \<or>
     (8192 \<le> c \<and> c \<le> 8202) \<or> c = 8232 \<or> c = 8233 \<or> c = 8239 \<or> c = 8287 \<or>
     c = 12288"

definition lstrip :: "pystr \<Rightarrow> pystr" where
  "lstrip s = dropWhile isspace s"

definition rstrip :: "pystr \<Rightarrow> pystr" where
  "rstrip s = rev (dropWhile isspace (rev s))"

definition strip :: "pystr \<Rightarrow> pystr" where
  "strip s = rstrip (lstrip s)"

text \<open>What \<open>json.loads\<close> can put under a key of the request body.\<close>

datatype pyval = PNone | PStr pystr | PInt int | PBool bool | POther

section \<open>shared/validation.py\<close>

definition validate_movie_title :: "pyval \<Rightarrow> bool \<times> string option" where
  "validate_movie_title title =
     (case title of
        PNone \<Rightarrow> (False, Some ''Title is required'')
      | PStr s \<Rightarrow>
          if strip s = [] then (False, Some ''Title cannot be empty or whitespace only'')
          else if length (strip s) > 500 then (False, Some ''Title cannot exceed 500 characters'')
          else (True, None)
      | _ \<Rightarrow> (False, Some ''Title must be a string''))"

definition valid_statuses :: "pystr list" where
  "valid_statuses = [str ''wishlist'', str ''downloaded'']"

definition validate_movie_status :: "pyval \<Rightarrow> bool \<times> string option" where
  "validate_movie_status status =
     (case status of
        PNone \<Rightarrow> (False, Some ''Status is required'')
      | PStr s \<Rightarrow>
          if s \<notin> set valid_statuses
          then (False, Some ''Status must be one of: wishlist, downloaded'')
          else (True, None)
      | _ \<Rightarrow> (False, Some ''Status must be a string''))"

section \<open>shared/response.py\<close>

text \<open>
  An API Gateway response: the status code and the body before \<open>json.dumps\<close>. The
  headers are the same constants on every path and are left out.
\<close>

text \<open>
  The items of the two tables. An interest has the attributes \<open>userId\<close>, \<open>movieId\<close> and
  \<open>createdAt\<close>; the last two are written \<open>i_movieId\<close> and \<open>i_createdAt\<close>, apart from the
  fields of a movie.
\<close>

record movie =
  movieId :: pystr
  title :: pystr
  status :: pystr
  createdBy :: pystr
  createdAt :: int
  updatedAt :: int

record interest =
  userId :: pystr
  i_movieId :: pystr
  i_createdAt :: int

text \<open>A movie as \<open>get_movies\<close> returns it: the item plus \<open>interestedUsers\<close>.\<close>

record enriched_movie = movie +
  interestedUsers :: "pystr list"

datatype body =
    ErrorBody string "string option"
  | MovieBody movie
  | InterestBody interest
  | MoviesBody "enriched_movie list"
  | EmptyBody

record response =
  statusCode :: nat
  resp_body :: body

definition success_response :: "nat \<Rightarrow> body \<Rightarrow> response" where
  "success_response status_code b = \<lparr>statusCode = status_code, resp_body = b\<rparr>"

definition error_response :: "nat \<Rightarrow> string \<Rightarrow> string \<Rightarrow> response" where
  "error_response status_code message error_type =
     \<lparr>statusCode = status_code,
      resp_body = ErrorBody message (if error_type \<noteq> [] then Some error_type else None)\<rparr>"

definition no_content_response :: response where
  "no_content_response = \<lparr>statusCode = 204, resp_body = EmptyBody\<rparr>"

section \<open>shared/dynamodb_client.py and the record store\<close>

text \<open>
  A botocore \<open>ClientError\<close>: the error code and message of \<open>e.response['Error']\<close>, and
  the \<open>Code\<close> of each entry of \<open>e.response['CancellationReasons']\<close> (empty when the key
  is absent).
\<close>

record client_error =
  Code :: string
  Message :: string
  CancellationReasons :: "string list"

definition handle_client_error :: "client_error \<Rightarrow> nat \<times> string" where
  "handle_client_error e =
     (if Code e = ''ConditionalCheckFailedException'' then (409, ''Resource conflict or condition not met'')
      else if Code e = ''ResourceNotFoundException'' then (404, ''Resource not found'')
      else if Code e = ''ProvisionedThroughputExceededException''
        then (503, ''Service temporarily unavailable, please retry'')
      else if Code e = ''ValidationException'' then (400, ''Invalid request parameters'')
      else if Code e = ''TransactionCanceledException'' then (500, ''Transaction failed, please retry'')
      else (500, ''Internal server error''))"

text \<open>
  The two DynamoDB tables. The Movies table is keyed by \<open>movieId\<close>, the Interests table by
  (\<open>userId\<close>, \<open>movieId\<close>); an item carries its key attributes. DynamoDB promises no order of
  the items of a scan or of an index query; the model keeps them in a list.

  Every call of the store takes the failure the service answers with, if any
  (\<open>Some e\<close>: the call raises \<open>ClientError e\<close> and writes nothing; throttling, a rejected
  request and the size limits of a request are such failures), and otherwise has the
  documented effect of the DynamoDB operation. A scan and a query answer with all the
  items they match, in one page. An exception that is not a \<open>ClientError\<close> (the handlers
  answer it with 500 and \<open>ServerError\<close>) is outside the model.
\<close>

record store =
  movies_table :: "movie list"
  interests_table :: "interest list"

type_synonym fault = "client_error option"

definition interest_key :: "interest \<Rightarrow> pystr \<times> pystr" where
  "interest_key i = (userId i, i_movieId i)"

definition get_movie :: "fault \<Rightarrow> pystr \<Rightarrow> store \<Rightarrow> client_error + movie option" where
  "get_movie f mid st =
     (case f of Some e \<Rightarrow> Inl e
      | None \<Rightarrow> Inr (find (\<lambda>m. movieId m = mid) (movies_table st)))"

definition put_movie :: "fault \<Rightarrow> movie \<Rightarrow> store \<Rightarrow> client_error + store" where
  "put_movie f item st =
     (case f of Some e \<Rightarrow> Inl e
      | None \<Rightarrow> Inr (st\<lparr>movies_table :=
          filter (\<lambda>m. movieId m \<noteq> movieId item) (movies_table st) @ [item]\<rparr>))"

definition put_interest :: "fault \<Rightarrow> interest \<Rightarrow> store \<Rightarrow> client_error + store" where
  "put_interest f item st =
     (case f of Some e \<Rightarrow> Inl e
      | None \<Rightarrow> Inr (st\<lparr>interests_table :=
          filter (\<lambda>i. interest_key i \<noteq> interest_key item) (interests_table st) @ [item]\<rparr>))"

definition delete_interest :: "fault \<Rightarrow> pystr \<times> pystr \<Rightarrow> store \<Rightarrow> client_error + store" where
  "delete_interest f k st =
     (case f of Some e \<Rightarrow> Inl e
      | None \<Rightarrow> Inr (st\<lparr>interests_table :=
          filter (\<lambda>i. interest_key i \<noteq> k) (interests_table st)\<rparr>))"

text \<open>The query on \<open>MovieInterestsIndex\<close> with \<open>movieId = :movieId\<close>.\<close>

definition query_interests :: "fault \<Rightarrow> pystr \<Rightarrow> store \<Rightarrow> client_error + interest list" where
  "query_interests f mid st =
     (case f of Some e \<Rightarrow> Inl e
      | None \<Rightarrow> Inr (filter (\<lambda>i. i_movieId i = mid) (interests_table st)))"

definition scan_movies :: "fault \<Rightarrow> store \<Rightarrow> client_error + movie list" where
  "scan_movies f st = (case f of Some e \<Rightarrow> Inl e | None \<Rightarrow> Inr (movies_table st))"

text \<open>
  \<open>update_item\<close> with \<open>SET #status = :status, updatedAt = :updatedAt\<close>, the condition
  \<open>attribute_exists(movieId)\<close> and \<open>ReturnValues='ALL_NEW'\<close>.
\<close>

definition conditional_check_failed :: client_error where
  "conditional_check_failed =
     \<lparr>Code = ''ConditionalCheckFailedException'',
      Message = ''The conditional request failed'',
      CancellationReasons = []\<rparr>"

definition update_movie ::
  "fault \<Rightarrow> pystr \<Rightarrow> pystr \<Rightarrow> int \<Rightarrow> store \<Rightarrow> client_error + (movie \<times> store)" where
  "update_movie f mid new_status new_updated st =
     (case f of Some e \<Rightarrow> Inl e
      | None \<Rightarrow>
         (case find (\<lambda>m. movieId m = mid) (movies_table st) of
            None \<Rightarrow> Inl conditional_check_failed
          | Some m \<Rightarrow>
              Inr (m\<lparr>status := new_status, updatedAt := new_updated\<rparr>,
                   st\<lparr>movies_table :=
                     map (\<lambda>x. if movieId x = mid
                               then x\<lparr>status := new_status, updatedAt := new_updated\<rparr> else x)
                         (movies_table st)\<rparr>)))"

text \<open>
  \<open>transact_write_items\<close>: the items of \<open>delete_movie\<close> are a delete of a movie under the
  condition \<open>attribute_exists(movieId)\<close> and unconditional deletes of interests. The
  transaction checks every condition on the store as it is; when one fails it is cancelled
  with one cancellation reason per item and nothing is written, otherwise every delete is
  applied.
\<close>

datatype transact_item =
    DeleteMovieIfExists pystr
  | DeleteInterest pystr pystr

definition reason_of :: "store \<Rightarrow> transact_item \<Rightarrow> string" where
  "reason_of st it =
     (case it of
        DeleteMovieIfExists mid \<Rightarrow>
          if find (\<lambda>m. movieId m = mid) (movies_table st) = None
          then ''ConditionalCheckFailed'' else ''None''
      | DeleteInterest u mid \<Rightarrow> ''None'')"

definition apply_item :: "store \<Rightarrow> transact_item \<Rightarrow> store" where
  "apply_item st it =
     (case it of
        DeleteMovieIfExists mid \<Rightarrow>
          st\<lparr>movies_table := filter (\<lambda>m. movieId m \<noteq> mid) (movies_table st)\<rparr>
      | DeleteInterest u mid \<Rightarrow>
          st\<lparr>interests_table := filter (\<lambda>i. interest_key i \<noteq> (u, mid)) (interests_table st)\<rparr>)"

fun join_reasons :: "string list \<Rightarrow> string" where
  "join_reasons [] = []"
| "join_reasons [r] = r"
| "join_reasons (r # rs) = r @ '', '' @ join_reasons rs"

definition transaction_canceled :: "string list \<Rightarrow> client_error" where
  "transaction_canceled reasons =
     \<lparr>Code = ''TransactionCanceledException'',
      Message = ''Transaction cancelled, please refer cancellation reasons for specific reasons [''
                  @ join_reasons reasons @ '']'',
      CancellationReasons = reasons\<rparr>"

definition transact_write_items :: "fault \<Rightarrow> transact_item list \<Rightarrow> store \<Rightarrow> client_error + store" where
  "transact_write_items f items st =
     (case f of Some e \<Rightarrow> Inl e
      | None \<Rightarrow>
          let reasons = map (reason_of st) items
          in if list_all (\<lambda>r. r = ''None'') reasons then Inr (foldl apply_item st items)
             else Inl (transaction_canceled reasons))"

section \<open>The request\<close>

text \<open>
  What a handler reads of the API Gateway event: \<open>pathParameters.movieId\<close>, the caller's
  \<open>requestContext.authorizer.claims.sub\<close> (each \<open>None\<close> when the lookup raises
  \<open>KeyError\<close> or \<open>TypeError\<close>), and the body as \<open>json.loads\<close> leaves it: a decoding error, an object, or some
  other value, on which \<open>body.get\<close> raises and the handler answers 500. The clock
  reading \<open>int(time.time())\<close> and the value of \<open>uuid.uuid4()\<close> are arguments of the
  handlers that use them.
\<close>

datatype json_body = JSONDecodeError | JSONObject "(string \<times> pyval) list" | JSONOther

record event =
  pathParameters_movieId :: "pystr option"
  claims_sub :: "pystr option"
  ev_body :: json_body

definition dict_get :: "(string \<times> pyval) list \<Rightarrow> string \<Rightarrow> pyval" where
  "dict_get d k = (case map_of d k of None \<Rightarrow> PNone | Some v \<Rightarrow> v)"

definition database_error :: "client_error \<Rightarrow> response" where
  "database_error e =
     (let (status_code, error_msg) = handle_client_error e
      in error_response status_code error_msg ''DatabaseError'')"

section \<open>delete_movie.py\<close>

text \<open>Python's \<open>sub in s\<close> on strings.\<close>

fun py_in :: "string \<Rightarrow> string \<Rightarrow> bool" where
  "py_in sub [] = (sub = [])"
| "py_in sub (c # cs) = (prefix sub (c # cs) \<or> py_in sub cs)"

text \<open>The \<open>except ClientError\<close> branch around the transaction.\<close>

definition transaction_failure :: "client_error \<Rightarrow> response" where
  "transaction_failure e =
     (if Code e = ''TransactionCanceledException'' then
        (if CancellationReasons e = [] then
           (if py_in ''ConditionalCheckFailed'' (Message e)
                \<or> py_in ''ConditionalCheckFailedException'' (Message e)
            then error_response 404 ''Movie not found'' ''NotFoundError''
            else error_response 500 ''Transaction failed'' ''TransactionError'')
         else if hd (CancellationReasons e) = ''ConditionalCheckFailed''
           then error_response 404 ''Movie not found'' ''NotFoundError''
         else error_response 500 ''Transaction failed'' ''TransactionError'')
      else if Code e = ''ConditionalCheckFailedException''
        then error_response 404 ''Movie not found'' ''NotFoundError''
      else database_error e)"

definition transact_items_of :: "pystr \<Rightarrow> interest list \<Rightarrow> transact_item list" where
  "transact_items_of movie_id interests =
     DeleteMovieIfExists movie_id # map (\<lambda>i. DeleteInterest (userId i) (i_movieId i)) interests"

definition delete_movie :: "event \<Rightarrow> fault \<Rightarrow> fault \<Rightarrow> store \<Rightarrow> response \<times> store" where
  "delete_movie ev query_fault transact_fault st =
     (case pathParameters_movieId ev of
        None \<Rightarrow> (error_response 400 ''Missing movieId in path'' ''ValidationError'', st)
      | Some movie_id \<Rightarrow>
         (case query_interests query_fault movie_id st of
            Inl e \<Rightarrow> (database_error e, st)
          | Inr interests \<Rightarrow>
             (case transact_write_items transact_fault (transact_items_of movie_id interests) st of
                Inr st' \<Rightarrow> (no_content_response, st')
              | Inl e \<Rightarrow> (transaction_failure e, st))))"

section \<open>add_interest.py\<close>

definition add_interest :: "event \<Rightarrow> int \<Rightarrow> fault \<Rightarrow> fault \<Rightarrow> store \<Rightarrow> response \<times> store" where
  "add_interest ev current_time get_fault put_fault st =
     (case pathParameters_movieId ev of
        None \<Rightarrow> (error_response 400 ''Missing movieId in path'' ''ValidationError'', st)
      | Some movie_id \<Rightarrow>
         (case claims_sub ev of
            None \<Rightarrow> (error_response 401 ''Unauthorized - missing user context'' ''AuthError'', st)
          | Some user_id \<Rightarrow>
             (case get_movie get_fault movie_id st of
                Inl e \<Rightarrow> (database_error e, st)
              | Inr None \<Rightarrow> (error_response 404 ''Movie not found'' ''NotFoundError'', st)
              | Inr (Some _) \<Rightarrow>
                 (let interest_item =
                        \<lparr>userId = user_id, i_movieId = movie_id, i_createdAt = current_time\<rparr>
                  in case put_interest put_fault interest_item st of
                       Inr st' \<Rightarrow> (success_response 201 (InterestBody interest_item), st')
                     | Inl e \<Rightarrow> (database_error e, st)))))"

section \<open>remove_interest.py\<close>

definition remove_interest :: "event \<Rightarrow> fault \<Rightarrow> store \<Rightarrow> response \<times> store" where
  "remove_interest ev delete_fault st =
     (case pathParameters_movieId ev of
        None \<Rightarrow> (error_response 400 ''Missing movieId in path'' ''ValidationError'', st)
      | Some movie_id \<Rightarrow>
         (case claims_sub ev of
            None \<Rightarrow> (error_response 401 ''Unauthorized - missing user context'' ''AuthError'', st)
          | Some user_id \<Rightarrow>
             (case delete_interest delete_fault (user_id, movie_id) st of
                Inr st' \<Rightarrow> (no_content_response, st')
              | Inl e \<Rightarrow> (database_error e, st))))"

section \<open>update_movie_status.py\<close>

text \<open>
  A status that passes \<open>validate_movie_status\<close> is a string, so the last branch below is
  never taken; it stands for the exception the source would raise on any other value.
  The same holds for the title in \<open>create_movie\<close>, where \<open>title.strip()\<close> would raise.
\<close>

definition update_movie_status :: "event \<Rightarrow> int \<Rightarrow> fault \<Rightarrow> store \<Rightarrow> response \<times> store" where
  "update_movie_status ev current_time update_fault st =
     (case pathParameters_movieId ev of
        None \<Rightarrow> (error_response 400 ''Missing movieId in path'' ''ValidationError'', st)
      | Some movie_id \<Rightarrow>
         (case ev_body ev of
            JSONDecodeError \<Rightarrow>
              (error_response 400 ''Invalid JSON in request body'' ''ValidationError'', st)
          | JSONOther \<Rightarrow> (error_response 500 ''Internal server error'' ''ServerError'', st)
          | JSONObject d \<Rightarrow>
             (let new_status = dict_get d ''status'';
                  (is_valid, error_message) = validate_movie_status new_status
              in if \<not> is_valid
                 then (error_response 400 (case error_message of Some m \<Rightarrow> m | None \<Rightarrow> [])
                         ''ValidationError'', st)
                 else (case new_status of
                         PStr s \<Rightarrow>
                           (case update_movie update_fault movie_id s current_time st of
                              Inr (updated_movie, st') \<Rightarrow>
                                (success_response 200 (MovieBody updated_movie), st')
                            | Inl e \<Rightarrow>
                                if Code e = ''ConditionalCheckFailedException''
                                then (error_response 404 ''Movie not found'' ''NotFoundError'', st)
                                else (database_error e, st))
                       | _ \<Rightarrow> (error_response 500 ''Internal server error'' ''ServerError'', st)))))"

section \<open>create_movie.py\<close>

definition create_movie ::
  "event \<Rightarrow> pystr \<Rightarrow> int \<Rightarrow> fault \<Rightarrow> fault \<Rightarrow> store \<Rightarrow> response \<times> store" where
  "create_movie ev uuid4 current_time movie_fault interest_fault st =
     (case ev_body ev of
        JSONDecodeError \<Rightarrow>
          (error_response 400 ''Invalid JSON in request body'' ''ValidationError'', st)
      | JSONOther \<Rightarrow> (error_response 500 ''Internal server error'' ''ServerError'', st)
      | JSONObject d \<Rightarrow>
         (let title_val = dict_get d ''title'';
              (is_valid, error_message) = validate_movie_title title_val
          in if \<not> is_valid
             then (error_response 400 (case error_message of Some m \<Rightarrow> m | None \<Rightarrow> [])
                     ''ValidationError'', st)
             else (case claims_sub ev of
                None \<Rightarrow> (error_response 401 ''Unauthorized - missing user context'' ''AuthError'', st)
              | Some user_id \<Rightarrow>
                 (case title_val of
                    PStr t \<Rightarrow>
                      (let movie_id = uuid4;
                           movie_item = \<lparr>movieId = movie_id, title = strip t,
                                         status = str ''wishlist'', createdBy = user_id,
                                         createdAt = current_time, updatedAt = current_time\<rparr>
                       in case put_movie movie_fault movie_item st of
                            Inl e \<Rightarrow> (database_error e, st)
                          | Inr st1 \<Rightarrow>
                             (let interest_item = \<lparr>userId = user_id, i_movieId = movie_id,
                                                   i_createdAt = current_time\<rparr>
                              in case put_interest interest_fault interest_item st1 of
                                   Inl e \<Rightarrow> (database_error e, st1)
                                 | Inr st2 \<Rightarrow> (success_response 201 (MovieBody movie_item), st2)))
                  | _ \<Rightarrow> (error_response 500 ''Internal server error'' ''ServerError'', st)))))"

section \<open>get_movies.py\<close>

text \<open>
  The identity directory: \<open>list_users\<close> filtered on \<open>sub\<close> either raises (\<open>None\<close>) or
  returns the matching users, each with its \<open>Username\<close> when it has one.
\<close>

type_synonym cognito = "pystr \<Rightarrow> pystr option list option"

definition get_username_from_user_id :: "cognito \<Rightarrow> pystr \<Rightarrow> pystr" where
  "get_username_from_user_id cognito_client user_id =
     (case cognito_client user_id of
        None \<Rightarrow> user_id
      | Some [] \<Rightarrow> user_id
      | Some (u # _) \<Rightarrow> (case u of Some name \<Rightarrow> name | None \<Rightarrow> user_id))"

text \<open>The body of the loop over the scanned movies, for one movie.\<close>

definition enrich :: "cognito \<Rightarrow> (pystr \<Rightarrow> fault) \<Rightarrow> store \<Rightarrow> movie \<Rightarrow> enriched_movie" where
  "enrich cognito_client query_fault st m =
     (let movie_id = movieId m;
          m' = m\<lparr>createdBy := get_username_from_user_id cognito_client (createdBy m)\<rparr>
      in case query_interests (query_fault movie_id) movie_id st of
           Inr interests \<Rightarrow>
             movie.extend m' \<lparr>interestedUsers =
               map (\<lambda>i. get_username_from_user_id cognito_client (userId i)) interests\<rparr>
         | Inl e \<Rightarrow> movie.extend m' \<lparr>interestedUsers = []\<rparr>)"

text \<open>
  \<open>list.sort(key=..., reverse=True)\<close> is stable: items with equal keys keep their order.
  So is \<open>sort_key\<close> on the negated key.
\<close>

definition sort_newest_first :: "enriched_movie list \<Rightarrow> enriched_movie list" where
  "sort_newest_first ms = sort_key (\<lambda>x. - createdAt x) ms"

definition get_movies :: "cognito \<Rightarrow> fault \<Rightarrow> (pystr \<Rightarrow> fault) \<Rightarrow> store \<Rightarrow> response" where
  "get_movies cognito_client scan_fault query_fault st =
     (case scan_movies scan_fault st of
        Inl e \<Rightarrow> database_error e
      | Inr movies \<Rightarrow>
          success_response 200
            (MoviesBody (sort_newest_first (map (enrich cognito_client query_fault st) movies))))"

section \<open>Repeated calls\<close>

text \<open>Calling a handler once per element of a list, each call on the store the last one left.\<close>

fun run_calls ::
  "('t \<Rightarrow> store \<Rightarrow> response \<times> store) \<Rightarrow> 't list \<Rightarrow> store \<Rightarrow> response list \<times> store" where
  "run_calls h [] st = ([], st)"
| "run_calls h (t # ts) st =
     (let (r, st1) = h t st; (rs, st2) = run_calls h ts st1 in (r # rs, st2))"

section \<open>Example data\<close>

text \<open>Two movies, a store holding them, a store with an interest whose movie is gone, and a
  throttling failure of the store.\<close>

definition m1 :: movie where
  "m1 = \<lparr>movieId = str ''m1'', title = str ''Inception'', status = str ''wishlist'',
         createdBy = str ''u1'', createdAt = 1000, updatedAt = 1000\<rparr>"

definition m2 :: movie where
  "m2 = \<lparr>movieId = str ''m2'', title = str ''Heat'', status = str ''downloaded'',
         createdBy = str ''u2'', createdAt = 2000, updatedAt = 2500\<rparr>"

definition example_store :: store where
  "example_store =
     \<lparr>movies_table = [m1, m2],
      interests_table =
        [\<lparr>userId = str ''u1'', i_movieId = str ''m1'', i_createdAt = 1000\<rparr>,
         \<lparr>userId = str ''u2'', i_movieId = str ''m2'', i_createdAt = 2000\<rparr>,
         \<lparr>userId = str ''u2'', i_movieId = str ''m1'', i_createdAt = 1500\<rparr>]\<rparr>"

definition request :: "string \<Rightarrow> string \<Rightarrow> event" where
  "request movie_id user_id =
     \<lparr>pathParameters_movieId = Some (str movie_id), claims_sub = Some (str user_id),
      ev_body = JSONObject []\<rparr>"

definition throttled :: client_error where
  "throttled = \<lparr>Code = ''ProvisionedThroughputExceededException'',
                 Message = ''Rate exceeded'', CancellationReasons = []\<rparr>"

definition orphan_store :: store where
  "orphan_store =
     \<lparr>movies_table = [m2],
      interests_table =
        [\<lparr>userId = str ''u1'', i_movieId = str ''m1'', i_createdAt = 1000\<rparr>,
         \<lparr>userId = str ''u2'', i_movieId = str ''m2'', i_createdAt = 2000\<rparr>]\<rparr>"

definition status_request :: "string \<Rightarrow> string \<Rightarrow> event" where
  "status_request movie_id new_status =
     \<lparr>pathParameters_movieId = Some (str movie_id), claims_sub = Some (str ''u1''),
      ev_body = JSONObject [(''status'', PStr (str new_status))]\<rparr>"


text \<open>An identity directory that cannot be reached, and an index query that fails for one
  movie.\<close>

definition no_directory :: cognito where
  "no_directory user_id = None"

definition fail_for :: "pystr \<Rightarrow> pystr \<Rightarrow> fault" where
  "fail_for bad movie_id = (if movie_id = bad then Some throttled else None)"

section \<open>Title validation\<close>

lemma dropWhile_all: "\<forall>c\<in>set s. P c \<Longrightarrow> dropWhile P (s @ t) = dropWhile P t"
  by (induction s) simp_all

lemma strip_all_space: "\<forall>c\<in>set s. isspace c \<Longrightarrow> strip s = []"
  by (auto simp: strip_def lstrip_def rstrip_def dest: set_dropWhileD)

lemma strip_core:
  assumes "\<forall>c\<in>set l. isspace c" "\<forall>c\<in>set r. isspace c" "core \<noteq> []"
    "\<not> isspace (hd core)" "\<not> isspace (last core)"
  shows "strip (l @ core @ r) = core"
proof -
  have "dropWhile isspace (core @ r) = core @ r"
    using assms by (cases core) simp_all
  then have 1: "dropWhile isspace (l @ core @ r) = core @ r"
    using assms(1) by (simp add: dropWhile_all)
  have "dropWhile isspace (rev core) = rev core"
    using assms by (cases core rule: rev_cases) simp_all
  then have "dropWhile isspace (rev r @ rev core) = rev core"
    using assms(2) by (simp add: dropWhile_all)
  with 1 show ?thesis by (simp add: strip_def lstrip_def rstrip_def)
qed

text \<open>
  C7. \<open>validate_movie_title\<close> accepts a title whose stripped length is exactly 500 and
  rejects one of stripped length 501; it rejects the empty string and every string of
  whitespace only with the message that names emptiness, an absent title and a title that
  is not a string with messages of their own; and \<open>create_movie\<close> answers a rejected
  title with 400 and \<open>ValidationError\<close>, carrying the validator's message and writing
  nothing.
\<close>

theorem validate_movie_title_boundary:
  "(length (strip s) = 500 \<longrightarrow> validate_movie_title (PStr s) = (True, None)) \<and>
   (length (strip s) = 501 \<longrightarrow>
      validate_movie_title (PStr s) = (False, Some ''Title cannot exceed 500 characters'')) \<and>
   ((\<forall>c\<in>set s. isspace c) \<longrightarrow>
      validate_movie_title (PStr s) = (False, Some ''Title cannot be empty or whitespace only'')) \<and>
   validate_movie_title PNone = (False, Some ''Title is required'') \<and>
   (v \<noteq> PNone \<and> (\<forall>x. v \<noteq> PStr x) \<longrightarrow>
      validate_movie_title v = (False, Some ''Title must be a string'')) \<and>
   (ev_body ev = JSONObject d \<and> validate_movie_title (dict_get d ''title'') = (False, Some msg) \<longrightarrow>
      create_movie ev uuid4 now mf jf st = (error_response 400 msg ''ValidationError'', st))"
proof -
  have a: "length (strip s) = 500 \<longrightarrow> validate_movie_title (PStr s) = (True, None)"
    by (auto simp: validate_movie_title_def)
  have b: "length (strip s) = 501 \<longrightarrow>
      validate_movie_title (PStr s) = (False, Some ''Title cannot exceed 500 characters'')"
    by (auto simp: validate_movie_title_def)
  have c: "(\<forall>c\<in>set s. isspace c) \<longrightarrow>
      validate_movie_title (PStr s) = (False, Some ''Title cannot be empty or whitespace only'')"
    by (simp add: validate_movie_title_def strip_all_space)
  have d: "validate_movie_title PNone = (False, Some ''Title is required'')"
    by (simp add: validate_movie_title_def)
  have e: "v \<noteq> PNone \<and> (\<forall>x. v \<noteq> PStr x) \<longrightarrow>
      validate_movie_title v = (False, Some ''Title must be a string'')"
    by (cases v) (simp_all add: validate_movie_title_def)
  have f: "ev_body ev = JSONObject d \<and> validate_movie_title (dict_get d ''title'') = (False, Some msg) \<longrightarrow>
      create_movie ev uuid4 now mf jf st = (error_response 400 msg ''ValidationError'', st)"
    by (simp add: create_movie_def)
  from a b c d e f show ?thesis by blast
qed


text \<open>
  The boundary at a title of 500 and of 501 letters between surrounding whitespace, the
  empty and a whitespace-only title, a number as title, and the handler's answer.
\<close>

theorem validate_movie_title_boundary_witness:
  "validate_movie_title (PStr ([32, 9] @ replicate 500 97 @ [10, 32])) = (True, None) \<and>
   validate_movie_title (PStr ([32, 9] @ replicate 501 97 @ [10, 32])) =
     (False, Some ''Title cannot exceed 500 characters'') \<and>
   validate_movie_title (PStr []) = (False, Some ''Title cannot be empty or whitespace only'') \<and>
   validate_movie_title (PStr [32, 9, 160]) = (False, Some ''Title cannot be empty or whitespace only'') \<and>
   validate_movie_title (PInt 7) = (False, Some ''Title must be a string'') \<and>
   create_movie \<lparr>pathParameters_movieId = None, claims_sub = Some (str ''u1''),
                  ev_body = JSONObject [(''title'', PStr [32, 32])]\<rparr>
      (str ''id'') 5 None None \<lparr>movies_table = [], interests_table = []\<rparr> =
     (error_response 400 ''Title cannot be empty or whitespace only'' ''ValidationError'',
      \<lparr>movies_table = [], interests_table = []\<rparr>)"
proof -
  have sp: "\<forall>c\<in>set [32, 9]. isspace c" "\<forall>c\<in>set [10, 32]. isspace c"
       "\<forall>c\<in>set []. isspace c" "\<forall>c\<in>set [32, 9, 160]. isspace c" "\<forall>c\<in>set [32, 32]. isspace c"
    by (simp_all add: isspace_def)
  have ns: "\<not> isspace 97" by (simp add: isspace_def)
  have l500: "length (strip ([32, 9] @ replicate 500 97 @ [10, 32])) = 500"
    using strip_core [OF sp(1) sp(2), of "replicate 500 97"] ns by simp
  have l501: "length (strip ([32, 9] @ replicate 501 97 @ [10, 32])) = 501"
    using strip_core [OF sp(1) sp(2), of "replicate 501 97"] ns by simp
  have v: "validate_movie_title (dict_get [(''title'', PStr [32, 32])] ''title'') =
      (False, Some ''Title cannot be empty or whitespace only'')"
    using validate_movie_title_boundary [of "[32, 32]"] sp(5) by (simp add: dict_get_def)
  show ?thesis
    using validate_movie_title_boundary [of "[32, 9] @ replicate 500 97 @ [10, 32]"] l500
      validate_movie_title_boundary [of "[32, 9] @ replicate 501 97 @ [10, 32]"] l501
      validate_movie_title_boundary [of "[]"] sp(3)
      validate_movie_title_boundary [of "[32, 9, 160]"] sp(4)
      validate_movie_title_boundary [of _ "PInt 7"]
      validate_movie_title_boundary [of _ _ "\<lparr>pathParameters_movieId = None, claims_sub = Some (str ''u1''),
                  ev_body = JSONObject [(''title'', PStr [32, 32])]\<rparr>" "[(''title'', PStr [32, 32])]"
            "''Title cannot be empty or whitespace only''" "str ''id''" 5 None None
            "\<lparr>movies_table = [], interests_table = []\<rparr>"] v
    by simp
qed


section \<open>Cascading deletion\<close>

lemma foldl_delete_interests:
  "foldl apply_item st (map (\<lambda>i. DeleteInterest (userId i) (i_movieId i)) xs) =
     st\<lparr>interests_table := filter (\<lambda>i. interest_key i \<notin> interest_key ` set xs) (interests_table st)\<rparr>"
proof (induction xs arbitrary: st)
  case Nil
  then show ?case by simp
next
  case (Cons x xs)
  have "filter (\<lambda>i. interest_key i \<notin> interest_key ` set xs)
          (filter (\<lambda>i. interest_key i \<noteq> (userId x, i_movieId x)) (interests_table st)) =
        filter (\<lambda>i. interest_key i \<notin> interest_key ` set (x # xs)) (interests_table st)"
    by (auto simp: interest_key_def intro: filter_cong)
  with Cons show ?case by (simp add: apply_item_def)
qed

lemma filter_queried:
  "filter (\<lambda>i. interest_key i \<notin> interest_key ` set (filter (\<lambda>i. i_movieId i = mid) tbl)) tbl =
   filter (\<lambda>i. i_movieId i \<noteq> mid) tbl"
  by (rule filter_cong) (auto simp: interest_key_def)

lemma reasons_of_interest_deletes:
  "list_all (\<lambda>r. r = ''None'')
     (map (reason_of st) (map (\<lambda>i. DeleteInterest (userId i) (i_movieId i)) xs))"
  by (induction xs) (simp_all add: reason_of_def)

lemma transact_delete_commit:
  assumes "find (\<lambda>m. movieId m = mid) (movies_table st) \<noteq> None"
  shows "transact_write_items None
           (transact_items_of mid (filter (\<lambda>i. i_movieId i = mid) (interests_table st))) st =
         Inr (st\<lparr>movies_table := filter (\<lambda>m. movieId m \<noteq> mid) (movies_table st),
                 interests_table := filter (\<lambda>i. i_movieId i \<noteq> mid) (interests_table st)\<rparr>)"
proof -
  let ?xs = "filter (\<lambda>i. i_movieId i = mid) (interests_table st)"
  let ?items = "transact_items_of mid ?xs"
  have "reason_of st (DeleteMovieIfExists mid) = ''None''"
    using assms by (simp add: reason_of_def)
  then have ok: "list_all (\<lambda>r. r = ''None'') (map (reason_of st) ?items)"
    using reasons_of_interest_deletes [of st ?xs]
    by (simp only: transact_items_of_def list.map list.pred_inject simp_thms)
  let ?st1 = "st\<lparr>movies_table := filter (\<lambda>m. movieId m \<noteq> mid) (movies_table st)\<rparr>"
  have "foldl apply_item st ?items =
        foldl apply_item ?st1 (map (\<lambda>i. DeleteInterest (userId i) (i_movieId i)) ?xs)"
    by (simp add: transact_items_of_def apply_item_def)
  also have "\<dots> = ?st1\<lparr>interests_table :=
      filter (\<lambda>i. interest_key i \<notin> interest_key ` set ?xs) (interests_table ?st1)\<rparr>"
    by (rule foldl_delete_interests)
  also have "\<dots> = ?st1\<lparr>interests_table := filter (\<lambda>i. i_movieId i \<noteq> mid) (interests_table st)\<rparr>"
    using filter_queried [of mid "interests_table st"] by (simp del: set_filter)
  finally have "foldl apply_item st ?items =
      st\<lparr>movies_table := filter (\<lambda>m. movieId m \<noteq> mid) (movies_table st),
         interests_table := filter (\<lambda>i. i_movieId i \<noteq> mid) (interests_table st)\<rparr>"
    by simp
  with ok show ?thesis
    by (simp only: transact_write_items_def option.case Let_def if_True)
qed

lemma transact_delete_cancel:
  assumes "find (\<lambda>m. movieId m = mid) (movies_table st) = None"
  shows "transact_write_items None (transact_items_of mid xs) st =
         Inl (transaction_canceled
                (''ConditionalCheckFailed'' #
                   map (reason_of st) (map (\<lambda>i. DeleteInterest (userId i) (i_movieId i)) xs)))"
  using assms by (simp add: transact_write_items_def transact_items_of_def reason_of_def)

lemma transaction_failure_cancel:
  "transaction_failure (transaction_canceled (''ConditionalCheckFailed'' # rs)) =
     error_response 404 ''Movie not found'' ''NotFoundError''"
  by (simp add: transaction_failure_def transaction_canceled_def)

lemma response_of_failure: "transaction_failure e \<noteq> no_content_response"
  by (simp add: transaction_failure_def database_error_def error_response_def
      no_content_response_def split: prod.splits)

text \<open>
  C1. \<open>delete_movie\<close> is atomic, whatever the store answers to the query and to the
  transaction: either the store is left exactly as it was and the answer is not 204, or the
  movie existed, the answer is 204, and the movie and every interest that references it are
  gone while every other item is kept. When the store does not fail and the movie exists,
  it is the second.
\<close>

theorem delete_movie_atomic:
  "(case delete_movie ev query_fault transact_fault st of
      (resp, st') \<Rightarrow>
        st' = st \<and> resp \<noteq> no_content_response
        \<or> (\<exists>mid. pathParameters_movieId ev = Some mid
              \<and> find (\<lambda>m. movieId m = mid) (movies_table st) \<noteq> None
              \<and> resp = no_content_response
              \<and> movies_table st' = filter (\<lambda>m. movieId m \<noteq> mid) (movies_table st)
              \<and> interests_table st' = filter (\<lambda>i. i_movieId i \<noteq> mid) (interests_table st)))
   \<and> (query_fault = None \<and> transact_fault = None \<and> pathParameters_movieId ev = Some movie_id
          \<and> find (\<lambda>m. movieId m = movie_id) (movies_table st) \<noteq> None \<longrightarrow>
        delete_movie ev query_fault transact_fault st =
          (no_content_response,
           st\<lparr>movies_table := filter (\<lambda>m. movieId m \<noteq> movie_id) (movies_table st),
              interests_table := filter (\<lambda>i. i_movieId i \<noteq> movie_id) (interests_table st)\<rparr>))"
  (is "?atomic \<and> ?live")
proof
  show ?live
    by (auto simp: delete_movie_def query_interests_def transact_delete_commit)
  show ?atomic
proof (cases "pathParameters_movieId ev")
  case None
  then show ?thesis
    by (simp add: delete_movie_def error_response_def no_content_response_def)
next
  case (Some mid)
  show ?thesis
  proof (cases query_fault)
    case (Some e)
    then show ?thesis using \<open>pathParameters_movieId ev = Some mid\<close>
      by (simp add: delete_movie_def query_interests_def database_error_def error_response_def
          no_content_response_def split: prod.splits)
  next
    case qn: None
    show ?thesis
    proof (cases transact_fault)
      case (Some e)
      then show ?thesis using \<open>pathParameters_movieId ev = Some mid\<close> qn
        by (simp add: delete_movie_def query_interests_def transact_write_items_def
            response_of_failure)
    next
      case tn: None
      show ?thesis
      proof (cases "find (\<lambda>m. movieId m = mid) (movies_table st)")
        case None
        then show ?thesis using \<open>pathParameters_movieId ev = Some mid\<close> qn tn
          by (simp add: delete_movie_def query_interests_def transact_delete_cancel
              response_of_failure)
      next
        case (Some m)
        then have "find (\<lambda>m. movieId m = mid) (movies_table st) \<noteq> None" by simp
        from transact_delete_commit [OF this] show ?thesis
          using \<open>pathParameters_movieId ev = Some mid\<close> qn tn Some
          by (simp add: delete_movie_def query_interests_def)
      qed
    qed
  qed
qed
qed

text \<open>
  Deleting a movie with two interests removes all three items; the same request under a
  throttled transaction removes nothing.
\<close>

theorem delete_movie_atomic_witness:
  "delete_movie (request ''m1'' ''u1'') None None example_store =
     (no_content_response,
      \<lparr>movies_table = [m2],
       interests_table = [\<lparr>userId = str ''u2'', i_movieId = str ''m2'', i_createdAt = 2000\<rparr>]\<rparr>)
   \<and> delete_movie (request ''m1'' ''u1'') None (Some throttled) example_store =
     (error_response 503 ''Service temporarily unavailable, please retry'' ''DatabaseError'',
      example_store)"
proof -
  have "delete_movie (request ''m1'' ''u1'') None None example_store =
     (no_content_response,
      \<lparr>movies_table = [m2],
       interests_table = [\<lparr>userId = str ''u2'', i_movieId = str ''m2'', i_createdAt = 2000\<rparr>]\<rparr>)"
    using delete_movie_atomic [where ev = "request ''m1'' ''u1''" and query_fault = None
        and transact_fault = None and st = example_store and movie_id = "str ''m1''"]
    by (simp add: request_def example_store_def m1_def m2_def str_def)
  moreover have "delete_movie (request ''m1'' ''u1'') None (Some throttled) example_store =
     (error_response 503 ''Service temporarily unavailable, please retry'' ''DatabaseError'',
      example_store)"
    by (simp add: delete_movie_def request_def query_interests_def transact_write_items_def
        transaction_failure_def throttled_def database_error_def handle_client_error_def)
  ultimately show ?thesis by simp
qed

text \<open>
  C2. For a \<open>movieId\<close> that identifies no movie, \<open>delete_movie\<close> leaves the store as it
  was, whatever the store answers, the interests the query found for that id included; and
  when the store does not fail, the answer is 404 with \<open>NotFoundError\<close>.
\<close>

theorem delete_movie_not_found:
  assumes "pathParameters_movieId ev = Some mid"
    and "find (\<lambda>m. movieId m = mid) (movies_table st) = None"
  shows "snd (delete_movie ev query_fault transact_fault st) = st
    \<and> delete_movie ev None None st = (error_response 404 ''Movie not found'' ''NotFoundError'', st)"
proof
  show "delete_movie ev None None st = (error_response 404 ''Movie not found'' ''NotFoundError'', st)"
    using assms
    by (simp add: delete_movie_def query_interests_def transact_delete_cancel
        transaction_failure_cancel)
  show "snd (delete_movie ev query_fault transact_fault st) = st"
  proof (cases transact_fault)
    case None
    then show ?thesis using assms
      by (cases query_fault)
        (simp_all add: delete_movie_def query_interests_def transact_delete_cancel)
  next
    case (Some e)
    then show ?thesis using assms
      by (cases query_fault)
        (simp_all add: delete_movie_def query_interests_def transact_write_items_def)
  qed
qed

text \<open>A store where an interest outlived its movie: the interest stays.\<close>

theorem delete_movie_not_found_witness:
  "delete_movie (request ''m1'' ''u2'') None None orphan_store =
     (error_response 404 ''Movie not found'' ''NotFoundError'', orphan_store)
   \<and> snd (delete_movie (request ''m1'' ''u2'') None (Some throttled) orphan_store) = orphan_store"
proof -
  have p: "pathParameters_movieId (request ''m1'' ''u2'') = Some (str ''m1'')"
    by (simp add: request_def)
  have f: "find (\<lambda>m. movieId m = str ''m1'') (movies_table orphan_store) = None"
    by (simp add: orphan_store_def m2_def str_def)
  show ?thesis
    using delete_movie_not_found [OF p f, of None None]
      delete_movie_not_found [OF p f, of None "Some throttled"]
    by simp
qed


section \<open>Adding and removing interest\<close>

lemma add_interest_ok:
  assumes "pathParameters_movieId ev = Some mid" "claims_sub ev = Some uid"
    "find (\<lambda>m. movieId m = mid) (movies_table st) \<noteq> None"
  shows "add_interest ev t None None st =
     (success_response 201 (InterestBody \<lparr>userId = uid, i_movieId = mid, i_createdAt = t\<rparr>),
      st\<lparr>interests_table :=
          filter (\<lambda>i. interest_key i \<noteq> (uid, mid)) (interests_table st) @
          [\<lparr>userId = uid, i_movieId = mid, i_createdAt = t\<rparr>]\<rparr>)"
  using assms
  by (auto simp: add_interest_def get_movie_def put_interest_def interest_key_def Let_def)

lemma run_add_interest:
  assumes "pathParameters_movieId ev = Some mid" "claims_sub ev = Some uid"
    "find (\<lambda>m. movieId m = mid) (movies_table st) \<noteq> None" "ts \<noteq> []"
  shows "run_calls (\<lambda>t. add_interest ev t None None) ts st =
     (map (\<lambda>t. success_response 201
                  (InterestBody \<lparr>userId = uid, i_movieId = mid, i_createdAt = t\<rparr>)) ts,
      st\<lparr>interests_table :=
          filter (\<lambda>i. interest_key i \<noteq> (uid, mid)) (interests_table st) @
          [\<lparr>userId = uid, i_movieId = mid, i_createdAt = last ts\<rparr>]\<rparr>)"
  using assms(3,4)
proof (induction ts arbitrary: st)
  case Nil
  then show ?case by simp
next
  case (Cons t ts)
  let ?st1 = "st\<lparr>interests_table :=
          filter (\<lambda>i. interest_key i \<noteq> (uid, mid)) (interests_table st) @
          [\<lparr>userId = uid, i_movieId = mid, i_createdAt = t\<rparr>]\<rparr>"
  note r = add_interest_ok [OF assms(1,2) Cons.prems(1), of t]
  have m: "find (\<lambda>m. movieId m = mid) (movies_table ?st1) \<noteq> None"
    using Cons.prems(1) by simp
  show ?case
  proof (cases "ts = []")
    case True
    then show ?thesis by (simp add: r)
  next
    case False
    from Cons.IH [OF m False] False show ?thesis
      by (simp add: r interest_key_def)
  qed
qed

text \<open>
  C3, as the code has it. For a movie that exists and an authenticated caller, calling
  \<open>add_interest\<close> once per clock reading of a non-empty list, on a store that does not
  fail: every call answers 201 with the record it wrote; the store the calls leave is the
  store a single call at the last clock reading leaves; exactly one interest is stored for
  the pair, created at the last clock reading; every other interest and every movie is
  kept.
\<close>

theorem add_interest_idempotent:
  assumes "pathParameters_movieId ev = Some mid" and "claims_sub ev = Some uid"
    and "find (\<lambda>m. movieId m = mid) (movies_table st) \<noteq> None" and "ts \<noteq> []"
  shows "case run_calls (\<lambda>t. add_interest ev t None None) ts st of
     (rs, st') \<Rightarrow>
       rs = map (\<lambda>t. success_response 201
                  (InterestBody \<lparr>userId = uid, i_movieId = mid, i_createdAt = t\<rparr>)) ts
       \<and> st' = snd (add_interest ev (last ts) None None st)
       \<and> filter (\<lambda>i. interest_key i = (uid, mid)) (interests_table st') =
           [\<lparr>userId = uid, i_movieId = mid, i_createdAt = last ts\<rparr>]
       \<and> filter (\<lambda>i. interest_key i \<noteq> (uid, mid)) (interests_table st') =
           filter (\<lambda>i. interest_key i \<noteq> (uid, mid)) (interests_table st)
       \<and> movies_table st' = movies_table st"
  using run_add_interest [OF assms] add_interest_ok [OF assms(1,2,3), of "last ts"]
  by (simp add: interest_key_def)

text \<open>Three calls for a new pair, the last two in the same second.\<close>

theorem add_interest_idempotent_witness:
  "run_calls (\<lambda>t. add_interest (request ''m2'' ''u1'') t None None) [3000, 3001, 3001] example_store =
     ([success_response 201 (InterestBody
          \<lparr>userId = str ''u1'', i_movieId = str ''m2'', i_createdAt = 3000\<rparr>),
       success_response 201 (InterestBody
          \<lparr>userId = str ''u1'', i_movieId = str ''m2'', i_createdAt = 3001\<rparr>),
       success_response 201 (InterestBody
          \<lparr>userId = str ''u1'', i_movieId = str ''m2'', i_createdAt = 3001\<rparr>)],
      \<lparr>movies_table = [m1, m2],
       interests_table =
        [\<lparr>userId = str ''u1'', i_movieId = str ''m1'', i_createdAt = 1000\<rparr>,
         \<lparr>userId = str ''u2'', i_movieId = str ''m2'', i_createdAt = 2000\<rparr>,
         \<lparr>userId = str ''u2'', i_movieId = str ''m1'', i_createdAt = 1500\<rparr>,
         \<lparr>userId = str ''u1'', i_movieId = str ''m2'', i_createdAt = 3001\<rparr>]\<rparr>)"
proof -
  have p: "pathParameters_movieId (request ''m2'' ''u1'') = Some (str ''m2'')"
    and c: "claims_sub (request ''m2'' ''u1'') = Some (str ''u1'')"
    by (simp_all add: request_def)
  have f: "find (\<lambda>m. movieId m = str ''m2'') (movies_table example_store) \<noteq> None"
    by (simp add: example_store_def m1_def m2_def str_def)
  have n: "[3000, 3001, 3001] \<noteq> ([] :: int list)" by simp
  have e: "snd (add_interest (request ''m2'' ''u1'') 3001 None None example_store) =
      \<lparr>movies_table = [m1, m2],
       interests_table =
        [\<lparr>userId = str ''u1'', i_movieId = str ''m1'', i_createdAt = 1000\<rparr>,
         \<lparr>userId = str ''u2'', i_movieId = str ''m2'', i_createdAt = 2000\<rparr>,
         \<lparr>userId = str ''u2'', i_movieId = str ''m1'', i_createdAt = 1500\<rparr>,
         \<lparr>userId = str ''u1'', i_movieId = str ''m2'', i_createdAt = 3001\<rparr>]\<rparr>"
    by (simp add: add_interest_def request_def example_store_def m1_def m2_def str_def
      get_movie_def put_interest_def interest_key_def Let_def)
  show ?thesis
    using add_interest_idempotent [OF p c f n] e
    by (simp split: prod.splits)
qed

text \<open>
  C3 as stated fails: the overwrite is not a no-op. The pair (u1, m1) is stored; a call at
  3000 and a repeat at 3001 leave an interest created at 3001 where the single call left
  one created at 3000, so the repeat changes the store.
\<close>

theorem add_interest_overwrite_counterexample:
  "filter (\<lambda>i. interest_key i = (str ''u1'', str ''m1''))
     (interests_table (snd (add_interest (request ''m1'' ''u1'') 3000 None None example_store))) =
     [\<lparr>userId = str ''u1'', i_movieId = str ''m1'', i_createdAt = 3000\<rparr>]
   \<and> filter (\<lambda>i. interest_key i = (str ''u1'', str ''m1''))
     (interests_table (snd (add_interest (request ''m1'' ''u1'') 3001 None None
        (snd (add_interest (request ''m1'' ''u1'') 3000 None None example_store))))) =
     [\<lparr>userId = str ''u1'', i_movieId = str ''m1'', i_createdAt = 3001\<rparr>]
   \<and> snd (add_interest (request ''m1'' ''u1'') 3001 None None
        (snd (add_interest (request ''m1'' ''u1'') 3000 None None example_store))) \<noteq>
      snd (add_interest (request ''m1'' ''u1'') 3000 None None example_store)"
  by (simp add: add_interest_def request_def example_store_def m1_def m2_def str_def
      get_movie_def put_interest_def interest_key_def Let_def)

text \<open>
  C4. For a \<open>movieId\<close> that identifies no movie, \<open>add_interest\<close> leaves the store as it
  was, whatever the store answers to the read and to the write; when the read does not
  fail the answer is 404 with \<open>NotFoundError\<close>, whatever the write would have answered:
  the write is not reached.
\<close>

theorem add_interest_not_found:
  assumes "pathParameters_movieId ev = Some mid" and "claims_sub ev = Some uid"
    and "find (\<lambda>m. movieId m = mid) (movies_table st) = None"
  shows "snd (add_interest ev t get_fault put_fault st) = st
    \<and> add_interest ev t None put_fault st =
        (error_response 404 ''Movie not found'' ''NotFoundError'', st)"
  using assms
  by (cases get_fault) (simp_all add: add_interest_def get_movie_def)

theorem add_interest_not_found_witness:
  "add_interest (request ''m1'' ''u2'') 3000 None (Some throttled) orphan_store =
     (error_response 404 ''Movie not found'' ''NotFoundError'', orphan_store)
   \<and> snd (add_interest (request ''m1'' ''u2'') 3000 (Some throttled) None orphan_store) =
       orphan_store"
proof -
  have p: "pathParameters_movieId (request ''m1'' ''u2'') = Some (str ''m1'')"
    and c: "claims_sub (request ''m1'' ''u2'') = Some (str ''u2'')"
    by (simp_all add: request_def)
  have f: "find (\<lambda>m. movieId m = str ''m1'') (movies_table orphan_store) = None"
    by (simp add: orphan_store_def m2_def str_def)
  show ?thesis
    using add_interest_not_found [OF p c f, of 3000 None "Some throttled"]
      add_interest_not_found [OF p c f, of 3000 "Some throttled" None]
    by simp
qed

lemma run_remove_interest:
  assumes "pathParameters_movieId ev = Some mid" "claims_sub ev = Some uid"
  shows "run_calls (\<lambda>_. remove_interest ev None) (replicate (Suc n) ()) st =
     (replicate (Suc n) no_content_response,
      st\<lparr>interests_table := filter (\<lambda>i. interest_key i \<noteq> (uid, mid)) (interests_table st)\<rparr>)"
proof (induction n arbitrary: st)
  case 0
  show ?case using assms by (simp add: remove_interest_def delete_interest_def)
next
  case (Suc n)
  have "remove_interest ev None st = (no_content_response,
      st\<lparr>interests_table := filter (\<lambda>i. interest_key i \<noteq> (uid, mid)) (interests_table st)\<rparr>)"
    using assms by (simp add: remove_interest_def delete_interest_def)
  then show ?case using Suc.IH by simp
qed

text \<open>
  C5. For an authenticated caller and any store, with or without an interest for the pair
  and with or without the movie, calling \<open>remove_interest\<close> \<open>n \<ge> 1\<close> times on a store
  that does not fail answers 204 every time and leaves no interest for the pair; every
  other interest and the Movies table, which the handler never reads, are as they were.
\<close>

theorem remove_interest_idempotent:
  assumes "pathParameters_movieId ev = Some mid" and "claims_sub ev = Some uid" and "1 \<le> n"
  shows "case run_calls (\<lambda>_. remove_interest ev None) (replicate n ()) st of
     (rs, st') \<Rightarrow>
       rs = replicate n no_content_response
       \<and> filter (\<lambda>i. interest_key i = (uid, mid)) (interests_table st') = []
       \<and> interests_table st' = filter (\<lambda>i. interest_key i \<noteq> (uid, mid)) (interests_table st)
       \<and> movies_table st' = movies_table st"
proof -
  obtain k where "n = Suc k" using assms(3) by (cases n) auto
  then show ?thesis using run_remove_interest [OF assms(1,2), of k st] by simp
qed


text \<open>Removing a stored interest three times, and one of a movie and a user unknown to the
  store twice.\<close>

theorem remove_interest_idempotent_witness:
  "run_calls (\<lambda>_. remove_interest (request ''m1'' ''u1'') None) (replicate 3 ()) example_store =
     (replicate 3 no_content_response,
      \<lparr>movies_table = [m1, m2],
       interests_table =
        [\<lparr>userId = str ''u2'', i_movieId = str ''m2'', i_createdAt = 2000\<rparr>,
         \<lparr>userId = str ''u2'', i_movieId = str ''m1'', i_createdAt = 1500\<rparr>]\<rparr>)
   \<and> run_calls (\<lambda>_. remove_interest (request ''m9'' ''u9'') None) (replicate 2 ()) example_store =
     (replicate 2 no_content_response, example_store)"
proof -
  have p: "pathParameters_movieId (request ''m1'' ''u1'') = Some (str ''m1'')"
    and c: "claims_sub (request ''m1'' ''u1'') = Some (str ''u1'')"
    and p9: "pathParameters_movieId (request ''m9'' ''u9'') = Some (str ''m9'')"
    and c9: "claims_sub (request ''m9'' ''u9'') = Some (str ''u9'')"
    by (simp_all add: request_def)
  have n: "(1::nat) \<le> 3" "(1::nat) \<le> 2" by simp_all
  have a: "run_calls (\<lambda>_. remove_interest (request ''m1'' ''u1'') None) (replicate 3 ()) example_store =
     (replicate 3 no_content_response,
      \<lparr>movies_table = [m1, m2],
       interests_table =
        [\<lparr>userId = str ''u2'', i_movieId = str ''m2'', i_createdAt = 2000\<rparr>,
         \<lparr>userId = str ''u2'', i_movieId = str ''m1'', i_createdAt = 1500\<rparr>]\<rparr>)"
    using remove_interest_idempotent [OF p c n(1), of example_store]
    by (cases "run_calls (\<lambda>_. remove_interest (request ''m1'' ''u1'') None) (replicate 3 ()) example_store")
       (simp add: example_store_def interest_key_def str_def)
  have b: "run_calls (\<lambda>_. remove_interest (request ''m9'' ''u9'') None) (replicate 2 ()) example_store =
     (replicate 2 no_content_response, example_store)"
    using remove_interest_idempotent [OF p9 c9 n(2), of example_store]
    by (cases "run_calls (\<lambda>_. remove_interest (request ''m9'' ''u9'') None) (replicate 2 ()) example_store")
       (simp add: example_store_def interest_key_def str_def)
  from a b show ?thesis by simp
qed


section \<open>Status updates\<close>

lemma find_updated:
  assumes "find (\<lambda>m. movieId m = mid) xs = Some m"
  shows "find (\<lambda>m. movieId m = mid)
           (map (\<lambda>x. if movieId x = mid then x\<lparr>status := s, updatedAt := t\<rparr> else x) xs) =
         Some (m\<lparr>status := s, updatedAt := t\<rparr>)"
  using assms by (induction xs) (auto split: if_splits)

lemma valid_status_strings:
  "validate_movie_status (PStr (str ''downloaded'')) = (True, None)"
  "validate_movie_status (PStr (str ''wishlist'')) = (True, None)"
  by (simp_all add: validate_movie_status_def valid_statuses_def)

lemma update_movie_status_ok:
  assumes "pathParameters_movieId ev = Some mid" "ev_body ev = JSONObject d"
    "dict_get d ''status'' = PStr s" "validate_movie_status (PStr s) = (True, None)"
    "find (\<lambda>m. movieId m = mid) (movies_table st) = Some m"
  shows "update_movie_status ev t None st =
     (success_response 200 (MovieBody (m\<lparr>status := s, updatedAt := t\<rparr>)),
      st\<lparr>movies_table :=
           map (\<lambda>x. if movieId x = mid then x\<lparr>status := s, updatedAt := t\<rparr> else x)
             (movies_table st)\<rparr>)"
  using assms by (simp add: update_movie_status_def update_movie_def)

text \<open>
  C6, as the code has it. For a movie that exists, on a store that does not fail,
  \<open>update_movie_status\<close> to \<open>downloaded\<close> at clock reading \<open>t1\<close> and then to
  \<open>wishlist\<close> at \<open>t2\<close>: both calls answer 200 with the updated movie; after the first the
  movie is \<open>downloaded\<close> with \<open>updatedAt = t1\<close>, after the second it is \<open>wishlist\<close> with
  \<open>updatedAt = t2\<close>, whatever its status was before either call, and nothing else of the
  movie changes. So the movie is back at its original status exactly when that status was
  \<open>wishlist\<close>, and with clock readings that do not decrease, \<open>updatedAt\<close> does not
  decrease across the two calls.
\<close>

theorem update_status_round_trip:
  assumes "pathParameters_movieId ev1 = Some mid" and "ev_body ev1 = JSONObject d1"
    and "dict_get d1 ''status'' = PStr (str ''downloaded'')"
    and "pathParameters_movieId ev2 = Some mid" and "ev_body ev2 = JSONObject d2"
    and "dict_get d2 ''status'' = PStr (str ''wishlist'')"
    and "find (\<lambda>m. movieId m = mid) (movies_table st) = Some m"
  shows "case update_movie_status ev1 t1 None st of (r1, st1) \<Rightarrow>
         case update_movie_status ev2 t2 None st1 of (r2, st2) \<Rightarrow>
           r1 = success_response 200 (MovieBody (m\<lparr>status := str ''downloaded'', updatedAt := t1\<rparr>))
         \<and> find (\<lambda>m. movieId m = mid) (movies_table st1) =
             Some (m\<lparr>status := str ''downloaded'', updatedAt := t1\<rparr>)
         \<and> r2 = success_response 200 (MovieBody (m\<lparr>status := str ''wishlist'', updatedAt := t2\<rparr>))
         \<and> find (\<lambda>m. movieId m = mid) (movies_table st2) =
             Some (m\<lparr>status := str ''wishlist'', updatedAt := t2\<rparr>)
         \<and> (m\<lparr>status := str ''wishlist'', updatedAt := t2\<rparr> = m\<lparr>updatedAt := t2\<rparr>)
             = (status m = str ''wishlist'')
         \<and> (updatedAt m \<le> t1 \<and> t1 \<le> t2 \<longrightarrow>
              updatedAt m \<le> updatedAt (m\<lparr>status := str ''downloaded'', updatedAt := t1\<rparr>)
              \<and> updatedAt (m\<lparr>status := str ''downloaded'', updatedAt := t1\<rparr>)
                  \<le> updatedAt (m\<lparr>status := str ''wishlist'', updatedAt := t2\<rparr>))
         \<and> interests_table st2 = interests_table st"
proof -
  let ?m1 = "m\<lparr>status := str ''downloaded'', updatedAt := t1\<rparr>"
  let ?st1 = "st\<lparr>movies_table :=
           map (\<lambda>x. if movieId x = mid then x\<lparr>status := str ''downloaded'', updatedAt := t1\<rparr> else x)
             (movies_table st)\<rparr>"
  have 1: "update_movie_status ev1 t1 None st = (success_response 200 (MovieBody ?m1), ?st1)"
    by (rule update_movie_status_ok [OF assms(1,2,3) valid_status_strings(1) assms(7)])
  have f1: "find (\<lambda>m. movieId m = mid) (movies_table ?st1) = Some ?m1"
    using find_updated [OF assms(7)] by simp
  note 2 = update_movie_status_ok [OF assms(4,5,6) valid_status_strings(2) f1, of t2]
  have f2: "find (\<lambda>m. movieId m = mid) (movies_table (snd (update_movie_status ev2 t2 None ?st1))) =
      Some (?m1\<lparr>status := str ''wishlist'', updatedAt := t2\<rparr>)"
    unfolding 2 snd_conv using find_updated [OF f1] by simp
  have eq: "(m\<lparr>status := str ''wishlist'', updatedAt := t2\<rparr> = m\<lparr>updatedAt := t2\<rparr>)
             = (status m = str ''wishlist'')"
    by (cases m) auto
  show ?thesis
    unfolding 1 prod.case using f1 f2 eq by (simp add: 2)
qed


text \<open>A wishlist movie, both calls in the same second: the status is back and
  \<open>updatedAt\<close> is the clock reading.\<close>

theorem update_status_round_trip_witness:
  "update_movie_status (status_request ''m1'' ''downloaded'') 3000 None example_store =
     (success_response 200 (MovieBody (m1\<lparr>status := str ''downloaded'', updatedAt := 3000\<rparr>)),
      example_store\<lparr>movies_table := [m1\<lparr>status := str ''downloaded'', updatedAt := 3000\<rparr>, m2]\<rparr>)
   \<and> update_movie_status (status_request ''m1'' ''wishlist'') 3000 None
       (example_store\<lparr>movies_table := [m1\<lparr>status := str ''downloaded'', updatedAt := 3000\<rparr>, m2]\<rparr>) =
     (success_response 200 (MovieBody (m1\<lparr>updatedAt := 3000\<rparr>)),
      example_store\<lparr>movies_table := [m1\<lparr>updatedAt := 3000\<rparr>, m2]\<rparr>)"
proof -
  let ?e1 = "status_request ''m1'' ''downloaded''"
  let ?e2 = "status_request ''m1'' ''wishlist''"
  have p: "pathParameters_movieId ?e1 = Some (str ''m1'')"
       "ev_body ?e1 = JSONObject [(''status'', PStr (str ''downloaded''))]"
       "dict_get [(''status'', PStr (str ''downloaded''))] ''status'' = PStr (str ''downloaded'')"
       "pathParameters_movieId ?e2 = Some (str ''m1'')"
       "ev_body ?e2 = JSONObject [(''status'', PStr (str ''wishlist''))]"
       "dict_get [(''status'', PStr (str ''wishlist''))] ''status'' = PStr (str ''wishlist'')"
    by (simp_all add: status_request_def dict_get_def)
  have f: "find (\<lambda>m. movieId m = str ''m1'') (movies_table example_store) = Some m1"
    by (simp add: example_store_def m1_def)
  have a: "update_movie_status ?e1 3000 None example_store =
     (success_response 200 (MovieBody (m1\<lparr>status := str ''downloaded'', updatedAt := 3000\<rparr>)),
      example_store\<lparr>movies_table := [m1\<lparr>status := str ''downloaded'', updatedAt := 3000\<rparr>, m2]\<rparr>)"
    by (simp add: update_movie_status_def status_request_def dict_get_def
        validate_movie_status_def valid_statuses_def update_movie_def example_store_def
        m1_def m2_def str_def)
  have w: "status m1 = str ''wishlist''" by (simp add: m1_def)
  have b: "update_movie_status ?e2 3000 None
       (example_store\<lparr>movies_table := [m1\<lparr>status := str ''downloaded'', updatedAt := 3000\<rparr>, m2]\<rparr>) =
     (success_response 200 (MovieBody (m1\<lparr>updatedAt := 3000\<rparr>)),
      example_store\<lparr>movies_table := [m1\<lparr>updatedAt := 3000\<rparr>, m2]\<rparr>)"
    using update_status_round_trip [OF p f, of 3000 3000] w unfolding a prod.case
    by (simp add: update_movie_status_def status_request_def dict_get_def
        validate_movie_status_def valid_statuses_def update_movie_def example_store_def
        m1_def m2_def str_def)
  from a b show ?thesis by simp
qed

text \<open>
  C6 as stated fails for a movie that is \<open>downloaded\<close> before the two calls: it ends as
  \<open>wishlist\<close>, not at its original status.
\<close>

theorem update_status_round_trip_counterexample:
  "find (\<lambda>m. movieId m = str ''m2'') (movies_table example_store) = Some m2
   \<and> status m2 = str ''downloaded''
   \<and> map status (filter (\<lambda>m. movieId m = str ''m2'')
       (movies_table (snd (update_movie_status (status_request ''m2'' ''wishlist'') 3001 None
          (snd (update_movie_status (status_request ''m2'' ''downloaded'') 3000 None
             example_store)))))) = [str ''wishlist'']
   \<and> str ''wishlist'' \<noteq> str ''downloaded''"
  by (simp add: update_movie_status_def status_request_def dict_get_def
        validate_movie_status_def valid_statuses_def update_movie_def example_store_def
        m1_def m2_def str_def)


section \<open>Creating a movie\<close>









section \<open>Listing the movies\<close>

lemma sorted_newest_first:
  "sorted_wrt (\<lambda>a b. createdAt b \<le> createdAt a) (sort_newest_first ms)"
proof -
  have "sorted (map (\<lambda>x. - createdAt x) (sort_newest_first ms))"
    by (simp add: sort_newest_first_def)
  then show ?thesis by (simp add: sorted_map)
qed

lemma mset_newest_first: "mset (sort_newest_first ms) = mset ms"
  by (simp add: sort_newest_first_def)

text \<open>
  C9. On every store whose scan does not fail, \<open>get_movies\<close> answers 200 with the
  enriched movies, each scanned movie once, in an order where \<open>createdAt\<close> never
  increases (newest first); the list is empty exactly when the Movies table is, so an empty
  store gives 200 with the empty list. This holds whatever the per-movie index queries and
  the identity directory answer.
\<close>

theorem get_movies_sorted:
  "\<exists>ms. get_movies cognito_client None query_fault st = success_response 200 (MoviesBody ms)
      \<and> sorted_wrt (\<lambda>a b. createdAt b \<le> createdAt a) ms
      \<and> mset ms = mset (map (enrich cognito_client query_fault st) (movies_table st))
      \<and> (ms = []) = (movies_table st = [])"
proof -
  let ?ms = "sort_newest_first (map (enrich cognito_client query_fault st) (movies_table st))"
  have "get_movies cognito_client None query_fault st = success_response 200 (MoviesBody ?ms)"
    by (simp add: get_movies_def scan_movies_def)
  moreover have "(?ms = []) = (movies_table st = [])"
    using mset_newest_first [of "map (enrich cognito_client query_fault st) (movies_table st)"]
    by (metis map_is_Nil_conv mset_zero_iff)
  ultimately show ?thesis
    using sorted_newest_first mset_newest_first by blast
qed

text \<open>The example store lists the movie created at 2000 before the one created at 1000;
  the empty store lists nothing, with 200.\<close>

theorem get_movies_sorted_witness:
  "get_movies no_directory None (\<lambda>_. None) example_store =
     success_response 200 (MoviesBody
       [movie.extend m2 \<lparr>interestedUsers = [str ''u2'']\<rparr>,
        movie.extend m1 \<lparr>interestedUsers = [str ''u1'', str ''u2'']\<rparr>])
   \<and> get_movies no_directory None (\<lambda>_. None) \<lparr>movies_table = [], interests_table = []\<rparr> =
     success_response 200 (MoviesBody [])"
proof -
  have a: "get_movies no_directory None (\<lambda>_. None) example_store =
     success_response 200 (MoviesBody
       [movie.extend m2 \<lparr>interestedUsers = [str ''u2'']\<rparr>,
        movie.extend m1 \<lparr>interestedUsers = [str ''u1'', str ''u2'']\<rparr>])"
    by (simp add: get_movies_def scan_movies_def sort_newest_first_def enrich_def
        query_interests_def get_username_from_user_id_def no_directory_def example_store_def
        m1_def m2_def str_def movie.extend_def Let_def)
  obtain ms where
    "get_movies no_directory None (\<lambda>_. None) \<lparr>movies_table = [], interests_table = []\<rparr> =
       success_response 200 (MoviesBody ms)"
    and "(ms = []) = (movies_table \<lparr>movies_table = [], interests_table = []\<rparr> = [])"
    using get_movies_sorted [of no_directory "\<lambda>_. None" "\<lparr>movies_table = [], interests_table = []\<rparr>"]
    by blast
  then have "get_movies no_directory None (\<lambda>_. None) \<lparr>movies_table = [], interests_table = []\<rparr> =
     success_response 200 (MoviesBody [])"
    by simp
  with a show ?thesis by simp
qed

text \<open>
  C10. When the index query for a scanned movie fails with a \<open>ClientError\<close>,
  \<open>get_movies\<close> still answers 200 with every scanned movie, and that movie is in the list
  with \<open>interestedUsers\<close> empty (and its creator resolved as for any other movie).
\<close>

theorem get_movies_query_failure:
  assumes "m \<in> set (movies_table st)" and "query_fault (movieId m) = Some e"
  shows "\<exists>ms. get_movies cognito_client None query_fault st = success_response 200 (MoviesBody ms)
      \<and> movie.extend (m\<lparr>createdBy := get_username_from_user_id cognito_client (createdBy m)\<rparr>)
           \<lparr>interestedUsers = []\<rparr> \<in> set ms
      \<and> length ms = length (movies_table st)"
proof -
  let ?ms = "sort_newest_first (map (enrich cognito_client query_fault st) (movies_table st))"
  have r: "get_movies cognito_client None query_fault st = success_response 200 (MoviesBody ?ms)"
    by (simp add: get_movies_def scan_movies_def)
  have "enrich cognito_client query_fault st m =
      movie.extend (m\<lparr>createdBy := get_username_from_user_id cognito_client (createdBy m)\<rparr>)
           \<lparr>interestedUsers = []\<rparr>"
    using assms(2) by (simp add: enrich_def query_interests_def Let_def)
  then have "movie.extend (m\<lparr>createdBy := get_username_from_user_id cognito_client (createdBy m)\<rparr>)
           \<lparr>interestedUsers = []\<rparr> \<in> set ?ms"
    using assms(1) by (force simp: sort_newest_first_def)
  moreover have "length ?ms = length (movies_table st)"
    by (simp add: sort_newest_first_def)
  ultimately show ?thesis using r by blast
qed


text \<open>The query for m1 is throttled: m1 is listed with no interested users, m2 with
  its own.\<close>

theorem get_movies_query_failure_witness:
  "get_movies no_directory None (fail_for (str ''m1'')) example_store =
     success_response 200 (MoviesBody
       [movie.extend m2 \<lparr>interestedUsers = [str ''u2'']\<rparr>,
        movie.extend m1 \<lparr>interestedUsers = []\<rparr>])"
proof -
  have m: "m1 \<in> set (movies_table example_store)"
    by (simp add: example_store_def)
  have f: "fail_for (str ''m1'') (movieId m1) = Some throttled"
    by (simp add: fail_for_def m1_def)
  obtain ms where
    "get_movies no_directory None (fail_for (str ''m1'')) example_store =
       success_response 200 (MoviesBody ms)"
    using get_movies_query_failure [where m = m1 and st = example_store
        and query_fault = "fail_for (str ''m1'')" and e = throttled
        and cognito_client = no_directory] m f
    by blast
  then show ?thesis
    by (simp add: get_movies_def scan_movies_def sort_newest_first_def enrich_def
        query_interests_def get_username_from_user_id_def no_directory_def example_store_def
        m1_def m2_def str_def movie.extend_def Let_def fail_for_def success_response_def)
qed


end
